theory Spec2Isabelle
  imports Main
begin

section \<open>The gallery backend of \<^verbatim>\<open>server.js\<close>\<close>

text \<open>
  The server keeps two stores on disk: the metadata document \<^verbatim>\<open>data/gallery.json\<close>
  (\<^verbatim>\<open>dbPath\<close>) and the files below \<^verbatim>\<open>public/\<close>, among them the uploaded images in
  \<^verbatim>\<open>public/images/gallery\<close> (\<^verbatim>\<open>uploadsDir\<close>). Each route handler is modelled as a function
  from the request, the readings of the environment it takes (clock, random number,
  whether a write succeeds, what the upload library reports) and the two stores to the
  JSON response and the two stores afterwards.
\<close>

subsection \<open>Data\<close>

text \<open>
  An entry of the gallery, as the upload handler builds it (\<^verbatim>\<open>newImage\<close>). The field
  \<^verbatim>\<open>id\<close> is called \<open>img_id\<close> here, \<open>id\<close> being the identity function of HOL.
\<close>

record image =
  img_id :: string
  src :: string
  alt :: string
  category :: string
  createdAt :: string

text \<open>
  The metadata document, seen through the two calls that read it: \<^verbatim>\<open>fs.readFileSync\<close>
  throws on \<open>Unreadable\<close> (no file, no permission), \<^verbatim>\<open>JSON.parse\<close> throws on
  \<open>Malformed\<close>, and \<open>Json xs\<close> is a document that parses to the array \<open>xs\<close>. The server
  itself only ever writes \<^verbatim>\<open>JSON.stringify\<close> of an array of entries, which parses back to
  that array, so the text of the document is not modelled.
\<close>

datatype db_file = Unreadable | Malformed | Json "image list"

text \<open>
  The files below \<^verbatim>\<open>public/\<close> are the set of their paths relative to that directory:
  \<^verbatim>\<open>req.file.path\<close> of an upload named \<open>fn\<close> and \<^verbatim>\<open>path.join(__dirname, 'public', src)\<close>
  of its entry are both the path \<^verbatim>\<open>/images/gallery/fn\<close>.
\<close>

record store =
  db :: db_file
  files :: "string set"

datatype js_error = Error string | MulterError string string

fun error_message :: "js_error \<Rightarrow> string" where
  "error_message (Error m) = m"
| "error_message (MulterError c m) = m"

datatype payload = NoData | Images "image list" | Image image

text \<open>The object given to \<^verbatim>\<open>res.json\<close>, with the status set before it (200 when none is).\<close>

record response =
  status :: nat
  success :: bool
  message :: "string option"
  data :: payload
  error :: "string option"

definition reply :: "nat \<Rightarrow> bool \<Rightarrow> string \<Rightarrow> response" where
  "reply st ok msg =
     \<lparr>status = st, success = ok, message = Some msg, data = NoData, error = None\<rparr>"

subsection \<open>Reading and writing the metadata document\<close>

definition readFileSync :: "db_file \<Rightarrow> js_error + db_file" where
  "readFileSync f =
     (case f of
        Unreadable \<Rightarrow> Inl (Error ''ENOENT: no such file or directory'')
      | _ \<Rightarrow> Inr f)"

definition JSON_parse :: "db_file \<Rightarrow> js_error + image list" where
  "JSON_parse f =
     (case f of
        Json xs \<Rightarrow> Inr xs
      | _ \<Rightarrow> Inl (Error ''SyntaxError: Unexpected end of JSON input''))"

text \<open>\<^verbatim>\<open>readGalleryData\<close>: both calls sit in one \<^verbatim>\<open>try\<close>, whose \<^verbatim>\<open>catch\<close> returns \<^verbatim>\<open>[]\<close>.\<close>

definition readGalleryData :: "store \<Rightarrow> image list" where
  "readGalleryData s =
     (case readFileSync (db s) of
        Inl e \<Rightarrow> []
      | Inr text \<Rightarrow> (case JSON_parse text of Inl e \<Rightarrow> [] | Inr xs \<Rightarrow> xs))"

text \<open>
  \<^verbatim>\<open>writeGalleryData\<close>: \<open>ok\<close> tells whether \<^verbatim>\<open>fs.writeFileSync\<close> returns; when it throws,
  the function returns \<^verbatim>\<open>false\<close> and the document is taken to be as it was.
\<close>

definition writeGalleryData :: "image list \<Rightarrow> bool \<Rightarrow> store \<Rightarrow> bool \<times> store" where
  "writeGalleryData xs ok s = (if ok then (True, s\<lparr>db := Json xs\<rparr>) else (False, s))"

subsection \<open>The two listing routes\<close>

text \<open>\<^verbatim>\<open>GET /api/gallery\<close>.\<close>

definition get_gallery :: "store \<Rightarrow> response" where
  "get_gallery s =
     \<lparr>status = 200, success = True, message = None,
      data = Images (readGalleryData s), error = None\<rparr>"

text \<open>\<^verbatim>\<open>GET /api/gallery/category/:category\<close>.\<close>

definition get_gallery_category :: "string \<Rightarrow> store \<Rightarrow> response" where
  "get_gallery_category c s =
     (let images = readGalleryData s;
          filteredImages =
            (if c = ''all'' then images else filter (\<lambda>img. category img = c) images)
      in \<lparr>status = 200, success = True, message = None,
          data = Images filteredImages, error = None\<rparr>)"

subsection \<open>Numbers as strings\<close>

text \<open>
  \<^verbatim>\<open>Date.now().toString()\<close> and the concatenation of a number with a string render a
  non-negative integer in decimal, without leading zeros. Clock readings (milliseconds
  since 1970) and the rounded random number are natural numbers.
\<close>

definition digit :: "nat \<Rightarrow> char" where
  "digit d = ''0123456789'' ! d"

function toString :: "nat \<Rightarrow> string" where
  "toString n = (if n < 10 then [digit n] else toString (n div 10) @ [digit (n mod 10)])"
  by pat_completeness auto
termination
  by (relation "measure (\<lambda>n. n)") auto

declare toString.simps [simp del]

subsection \<open>The upload middleware\<close>

text \<open>
  The file part of a multipart request, as multer hands it to the callbacks: \<open>ext\<close> is
  \<^verbatim>\<open>path.extname(file.originalname)\<close>, \<open>bytes\<close> the number of bytes of the payload.
\<close>

record upload_file =
  ext :: string
  mimetype :: string
  bytes :: nat

text \<open>
  The request of \<^verbatim>\<open>POST /api/gallery/upload\<close>: the file in the field \<^verbatim>\<open>image\<close>, if there is
  one, and the text fields \<^verbatim>\<open>alt\<close> and \<^verbatim>\<open>category\<close> of \<^verbatim>\<open>req.body\<close>, \<open>None\<close> when the field
  is not sent (\<^verbatim>\<open>undefined\<close>).
\<close>

record upload_request =
  image_file :: "upload_file option"
  body_alt :: "string option"
  body_category :: "string option"

text \<open>
  What one upload reads from its environment: \<^verbatim>\<open>Date.now()\<close> and
  \<^verbatim>\<open>Math.round(Math.random() * 1E9)\<close> in the \<^verbatim>\<open>filename\<close> callback, \<^verbatim>\<open>Date.now()\<close> again for
  the id, \<^verbatim>\<open>new Date().toISOString()\<close>, whether \<^verbatim>\<open>fs.writeFileSync\<close> returns, and whether
  multer, while it streams the file, reports the limit \<^verbatim>\<open>limits.fileSize\<close> as reached
  (\<open>limit_raised\<close>). Multer is a library: the test it applies is not in the source, so
  its verdict is a reading of the environment like the others.
\<close>

record upload_env =
  now_filename :: nat
  random :: nat
  now_id :: nat
  iso_now :: string
  write_ok :: bool
  limit_raised :: bool

definition allowedTypes :: "string list" where
  "allowedTypes = [''image/jpeg'', ''image/jpg'', ''image/png'', ''image/webp'']"

text \<open>\<^verbatim>\<open>fileFilter\<close>: \<open>Inr True\<close> is \<^verbatim>\<open>cb(null, true)\<close>, \<open>Inl e\<close> is \<^verbatim>\<open>cb(e, false)\<close>.\<close>

definition fileFilter :: "upload_file \<Rightarrow> js_error + bool" where
  "fileFilter f =
     (if mimetype f \<in> set allowedTypes then Inr True
      else Inl (Error ''Invalid file type. Only JPEG, PNG and WEBP are allowed.''))"

text \<open>The limit the source hands to multer (\<^verbatim>\<open>limits.fileSize\<close>).\<close>

definition fileSize :: nat where
  "fileSize = 5 * 1024 * 1024"


text \<open>The \<^verbatim>\<open>filename\<close> callback of the disk storage.\<close>

definition filename :: "upload_env \<Rightarrow> upload_file \<Rightarrow> string" where
  "filename env f =
     (let uniqueSuffix = toString (now_filename env) @ ''-'' @ toString (random env)
      in ''gallery-'' @ uniqueSuffix @ ext f)"

text \<open>The path of a file of \<^verbatim>\<open>uploadsDir\<close>, relative to \<^verbatim>\<open>public/\<close>.\<close>

definition upload_path :: "string \<Rightarrow> string" where
  "upload_path fn = ''/images/gallery/'' @ fn"

text \<open>\<^verbatim>\<open>req.file\<close>, as far as the handler reads it.\<close>

record req_file =
  file_name :: string
  file_path :: string

text \<open>What the disk storage reports of the file it stores: its name and its path.\<close>

definition stored_file :: "upload_env \<Rightarrow> upload_file \<Rightarrow> req_file" where
  "stored_file env f =
     \<lparr>file_name = filename env f, file_path = upload_path (filename env f)\<rparr>"

text \<open>
  Modelled from the spec: what multer does once it reports the size limit is not in the
  source. The spec says that the payload is rejected and that no partial blob remains:
  multer passes on a \<^verbatim>\<open>MulterError\<close> with code \<^verbatim>\<open>LIMIT_FILE_SIZE\<close>, and the file it was
  writing is removed.
\<close>

definition limit_abort :: "req_file \<Rightarrow> store \<Rightarrow> (js_error + req_file option) \<times> store" where
  "limit_abort rf s =
     (Inl (MulterError ''LIMIT_FILE_SIZE'' ''File too large''),
      s\<lparr>files := files s - {file_path rf}\<rparr>)"

text \<open>
  \<^verbatim>\<open>upload.single('image')\<close> with the storage and the filter of the source. Multer calls
  the filter first and passes its error on without storing anything; it then streams an
  accepted file to \<^verbatim>\<open>uploadsDir\<close> under the generated name, replacing a file of that
  name; when it reports the size limit, the upload ends as \<open>limit_abort\<close> says.
  Without a file part \<^verbatim>\<open>req.file\<close> stays undefined. The request is taken to carry no
  other file and to stay within the limits multer has by default.
\<close>

definition upload_single :: "upload_request \<Rightarrow> upload_env \<Rightarrow> store \<Rightarrow> (js_error + req_file option) \<times> store" where
  "upload_single rq env s =
     (case image_file rq of
        None \<Rightarrow> (Inr None, s)
      | Some f \<Rightarrow>
          (case fileFilter f of
             Inl e \<Rightarrow> (Inl e, s)
           | Inr accepted \<Rightarrow>
               (let rf = stored_file env f
                in if limit_raised env then limit_abort rf s
                   else (Inr (Some rf), s\<lparr>files := insert (file_path rf) (files s)\<rparr>))))"

text \<open>The error handling middleware, which answers every error passed on.\<close>

definition error_middleware :: "js_error \<Rightarrow> response" where
  "error_middleware e =
     (case e of
        MulterError c m \<Rightarrow>
          (if c = ''LIMIT_FILE_SIZE''
           then reply 400 False ''File too large. Maximum size is 5MB''
           else reply 500 False (if m = [] then ''Internal server error'' else m))
      | Error m \<Rightarrow> reply 500 False (if m = [] then ''Internal server error'' else m))"

subsection \<open>File operations\<close>

definition existsSync :: "string \<Rightarrow> store \<Rightarrow> bool" where
  "existsSync p s = (p \<in> files s)"

text \<open>\<^verbatim>\<open>fs.unlinkSync\<close> throws when there is no such file.\<close>

definition unlinkSync :: "string \<Rightarrow> store \<Rightarrow> js_error + store" where
  "unlinkSync p s =
     (if p \<in> files s then Inr (s\<lparr>files := files s - {p}\<rparr>)
      else Inl (Error (''ENOENT: no such file or directory, unlink '' @ p)))"

subsection \<open>Upload\<close>

text \<open>A value of \<^verbatim>\<open>req.body\<close> that \<^verbatim>\<open>!\<close> takes as false: \<^verbatim>\<open>undefined\<close> or the empty string.\<close>

definition falsy :: "string option \<Rightarrow> bool" where
  "falsy v = (case v of None \<Rightarrow> True | Some t \<Rightarrow> t = [])"

text \<open>
  The \<^verbatim>\<open>catch\<close> block of the upload handler; an error thrown inside it is passed on
  to the error middleware.
\<close>

definition upload_catch :: "req_file option \<Rightarrow> js_error \<Rightarrow> store \<Rightarrow> response \<times> store" where
  "upload_catch rf e s =
     (let failed = \<lparr>status = 500, success = False, message = Some ''Failed to upload image'',
                     data = NoData, error = Some (error_message e)\<rparr>
      in (case rf of
            None \<Rightarrow> (failed, s)
          | Some f \<Rightarrow>
              (if existsSync (file_path f) s
               then (case unlinkSync (file_path f) s of
                       Inl e' \<Rightarrow> (error_middleware e', s)
                     | Inr s' \<Rightarrow> (failed, s'))
               else (failed, s))))"

text \<open>The text of a field of \<^verbatim>\<open>req.body\<close>; the handler reads it only after the check above.\<close>

fun field_value :: "string option \<Rightarrow> string" where
  "field_value None = []"
| "field_value (Some t) = t"

text \<open>The entry the handler creates (\<^verbatim>\<open>newImage\<close>), once \<^verbatim>\<open>alt\<close> and \<^verbatim>\<open>category\<close> passed.\<close>

definition newImage :: "upload_request \<Rightarrow> req_file \<Rightarrow> upload_env \<Rightarrow> image" where
  "newImage rq f env =
     \<lparr>img_id = toString (now_id env),
      src = ''/images/gallery/'' @ file_name f,
      alt = field_value (body_alt rq),
      category = field_value (body_category rq),
      createdAt = iso_now env\<rparr>"

text \<open>The handler of \<^verbatim>\<open>POST /api/gallery/upload\<close>, run after the middleware set \<^verbatim>\<open>req.file\<close>.\<close>

definition upload_handler :: "upload_request \<Rightarrow> req_file option \<Rightarrow> upload_env \<Rightarrow> store \<Rightarrow> response \<times> store" where
  "upload_handler rq rf env s =
     (case rf of
        None \<Rightarrow> (reply 400 False ''No image file provided'', s)
      | Some f \<Rightarrow>
          (if falsy (body_alt rq) \<or> falsy (body_category rq)
           then (case unlinkSync (file_path f) s of
                   Inl e \<Rightarrow> upload_catch rf e s
                 | Inr s' \<Rightarrow> (reply 400 False ''Alt text and category are required'', s'))
           else
             (let images = newImage rq f env # readGalleryData s
              in (case writeGalleryData images (write_ok env) s of
                    (False, s1) \<Rightarrow>
                      (case unlinkSync (file_path f) s1 of
                         Inl e \<Rightarrow> upload_catch rf e s1
                       | Inr s2 \<Rightarrow> (reply 500 False ''Failed to save image data'', s2))
                  | (True, s1) \<Rightarrow>
                      (\<lparr>status = 201, success = True,
                        message = Some ''Image uploaded successfully'',
                        data = Image (newImage rq f env), error = None\<rparr>, s1)))))"

text \<open>The whole route: middleware, then the handler or the error middleware.\<close>

definition post_upload :: "upload_request \<Rightarrow> upload_env \<Rightarrow> store \<Rightarrow> response \<times> store" where
  "post_upload rq env s =
     (case upload_single rq env s of
        (Inl e, s') \<Rightarrow> (error_middleware e, s')
      | (Inr rf, s') \<Rightarrow> upload_handler rq rf env s')"

subsection \<open>Delete\<close>

text \<open>
  The handler of \<^verbatim>\<open>DELETE /api/gallery/:id\<close>; \<open>ok\<close> tells whether \<^verbatim>\<open>fs.writeFileSync\<close>
  returns. An error thrown while the file is removed ends in the \<^verbatim>\<open>catch\<close> block.
\<close>

definition delete_image :: "string \<Rightarrow> bool \<Rightarrow> store \<Rightarrow> response \<times> store" where
  "delete_image i ok s =
     (let images = readGalleryData s
      in (case find (\<lambda>img. img_id img = i) images of
            None \<Rightarrow> (reply 404 False ''Image not found'', s)
          | Some imageToDelete \<Rightarrow>
              (let filePath = src imageToDelete
               in (case (if existsSync filePath s then unlinkSync filePath s else Inr s) of
                     Inl e \<Rightarrow>
                       (\<lparr>status = 500, success = False,
                         message = Some ''Failed to delete image'', data = NoData,
                         error = Some (error_message e)\<rparr>, s)
                   | Inr s1 \<Rightarrow>
                       (let updatedImages = filter (\<lambda>img. img_id img \<noteq> i) images
                        in (case writeGalleryData updatedImages ok s1 of
                              (False, s2) \<Rightarrow>
                                (reply 500 False ''Failed to update database'', s2)
                            | (True, s2) \<Rightarrow>
                                (reply 200 True ''Image deleted successfully'', s2)))))))"

subsection \<open>Sequences of requests\<close>

text \<open>Uploads served one after the other, with their responses.\<close>

fun uploads :: "(upload_request \<times> upload_env) list \<Rightarrow> store \<Rightarrow> response list \<times> store" where
  "uploads [] s = ([], s)"
| "uploads ((rq, env) # us) s =
     (case post_upload rq env s of
        (r, s1) \<Rightarrow> (case uploads us s1 of (rs, s2) \<Rightarrow> (r # rs, s2)))"

text \<open>Uploads and deletions served one after the other.\<close>

datatype operation = Upload upload_request upload_env | Delete string bool

fun run :: "operation list \<Rightarrow> store \<Rightarrow> store" where
  "run [] s = s"
| "run (Upload rq env # ops) s = run ops (snd (post_upload rq env s))"
| "run (Delete i ok # ops) s = run ops (snd (delete_image i ok s))"

text \<open>An orphan is a stored file that no entry of the index refers to.\<close>

definition orphans :: "store \<Rightarrow> string set" where
  "orphans s = {p \<in> files s. p \<notin> src ` set (readGalleryData s)}"

section \<open>Properties\<close>

subsection \<open>Auxiliary facts\<close>

lemma readGalleryData_files [simp]: "readGalleryData (s\<lparr>files := F\<rparr>) = readGalleryData s"
  by (simp add: readGalleryData_def)

lemma readGalleryData_Json [simp]: "readGalleryData (s\<lparr>db := Json xs\<rparr>) = xs"
  by (simp add: readGalleryData_def readFileSync_def JSON_parse_def)

lemma post_upload_no_file:
  "image_file rq = None \<Longrightarrow>
   post_upload rq env s = (reply 400 False ''No image file provided'', s)"
  by (simp add: post_upload_def upload_single_def upload_handler_def)

lemma post_upload_bad_type:
  "image_file rq = Some f \<Longrightarrow> mimetype f \<notin> set allowedTypes \<Longrightarrow>
   post_upload rq env s =
     (reply 500 False ''Invalid file type. Only JPEG, PNG and WEBP are allowed.'', s)"
  by (simp add: post_upload_def upload_single_def fileFilter_def error_middleware_def)

lemma post_upload_too_large:
  "image_file rq = Some f \<Longrightarrow> mimetype f \<in> set allowedTypes \<Longrightarrow> limit_raised env \<Longrightarrow>
   post_upload rq env s =
     (reply 400 False ''File too large. Maximum size is 5MB'',
      s\<lparr>files := files s - {file_path (stored_file env f)}\<rparr>)"
  by (simp add: post_upload_def upload_single_def fileFilter_def error_middleware_def limit_abort_def Let_def)

lemma post_upload_missing_fields:
  "image_file rq = Some f \<Longrightarrow> mimetype f \<in> set allowedTypes \<Longrightarrow> \<not> limit_raised env \<Longrightarrow>
   falsy (body_alt rq) \<or> falsy (body_category rq) \<Longrightarrow>
   post_upload rq env s =
     (reply 400 False ''Alt text and category are required'',
      s\<lparr>files := files s - {file_path (stored_file env f)}\<rparr>)"
  by (auto simp add: post_upload_def upload_single_def fileFilter_def upload_handler_def
      unlinkSync_def Let_def)

lemma post_upload_write_fails:
  "image_file rq = Some f \<Longrightarrow> mimetype f \<in> set allowedTypes \<Longrightarrow> \<not> limit_raised env \<Longrightarrow>
   \<not> falsy (body_alt rq) \<Longrightarrow> \<not> falsy (body_category rq) \<Longrightarrow> \<not> write_ok env \<Longrightarrow>
   post_upload rq env s =
     (reply 500 False ''Failed to save image data'',
      s\<lparr>files := files s - {file_path (stored_file env f)}\<rparr>)"
  by (simp add: post_upload_def upload_single_def fileFilter_def upload_handler_def
      unlinkSync_def writeGalleryData_def Let_def)

lemma post_upload_created:
  "image_file rq = Some f \<Longrightarrow> mimetype f \<in> set allowedTypes \<Longrightarrow> \<not> limit_raised env \<Longrightarrow>
   \<not> falsy (body_alt rq) \<Longrightarrow> \<not> falsy (body_category rq) \<Longrightarrow> write_ok env \<Longrightarrow>
   post_upload rq env s =
     (\<lparr>status = 201, success = True, message = Some ''Image uploaded successfully'',
       data = Image (newImage rq (stored_file env f) env), error = None\<rparr>,
      s\<lparr>db := Json (newImage rq (stored_file env f) env # readGalleryData s),
        files := insert (file_path (stored_file env f)) (files s)\<rparr>)"
  by (simp add: post_upload_def upload_single_def fileFilter_def upload_handler_def
      unlinkSync_def writeGalleryData_def Let_def)


text \<open>Every upload ends in one of six ways.\<close>

lemma post_upload_cases:
  obtains (no_file) "image_file rq = None"
  | (bad_type) f where "image_file rq = Some f" "mimetype f \<notin> set allowedTypes"
  | (too_large) f where "image_file rq = Some f" "mimetype f \<in> set allowedTypes" "limit_raised env"
  | (missing_fields) f where "image_file rq = Some f" "mimetype f \<in> set allowedTypes" "\<not> limit_raised env"
       "falsy (body_alt rq) \<or> falsy (body_category rq)"
  | (write_fails) f where "image_file rq = Some f" "mimetype f \<in> set allowedTypes" "\<not> limit_raised env"
       "\<not> falsy (body_alt rq)" "\<not> falsy (body_category rq)" "\<not> write_ok env"
  | (created) f where "image_file rq = Some f" "mimetype f \<in> set allowedTypes" "\<not> limit_raised env"
       "\<not> falsy (body_alt rq)" "\<not> falsy (body_category rq)" "write_ok env"
proof (cases "image_file rq")
  case None
  then show thesis by (rule no_file)
next
  case (Some f)
  show thesis
  proof (cases "mimetype f \<in> set allowedTypes")
    case False
    with Some show thesis by (rule bad_type)
  next
    case True
    with Some show thesis
      using too_large [of f] missing_fields [of f] write_fails [of f] created [of f]
      by (cases "limit_raised env") auto
  qed
qed

lemma post_upload_failed_store:
  assumes "status (fst (post_upload rq env s)) \<noteq> 201"
  shows "db (snd (post_upload rq env s)) = db s \<and> files (snd (post_upload rq env s)) \<subseteq> files s"
proof (cases rule: post_upload_cases [where rq = rq and env = env])
  case no_file
  then show ?thesis by (simp add: post_upload_no_file)
next
  case (bad_type f)
  then show ?thesis by (simp add: post_upload_bad_type)
next
  case (too_large f)
  then show ?thesis by (auto simp add: post_upload_too_large)
next
  case (missing_fields f)
  then show ?thesis by (auto simp add: post_upload_missing_fields)
next
  case (write_fails f)
  then show ?thesis by (auto simp add: post_upload_write_fails)
next
  case (created f)
  with assms show ?thesis by (simp add: post_upload_created)
qed

lemma post_upload_created_iff:
  assumes "status (fst (post_upload rq env s)) = 201"
  shows "\<exists>f. image_file rq = Some f \<and> 
    post_upload rq env s =
     (\<lparr>status = 201, success = True, message = Some ''Image uploaded successfully'',
       data = Image (newImage rq (stored_file env f) env), error = None\<rparr>,
      s\<lparr>db := Json (newImage rq (stored_file env f) env # readGalleryData s),
        files := insert (file_path (stored_file env f)) (files s)\<rparr>)"
proof (cases rule: post_upload_cases [where rq = rq and env = env])
  case no_file
  with assms show ?thesis by (simp add: post_upload_no_file reply_def)
next
  case (bad_type f)
  with assms show ?thesis by (simp add: post_upload_bad_type reply_def)
next
  case (too_large f)
  with assms show ?thesis by (simp add: post_upload_too_large reply_def)
next
  case (missing_fields f)
  with assms show ?thesis by (simp add: post_upload_missing_fields reply_def)
next
  case (write_fails f)
  with assms show ?thesis by (simp add: post_upload_write_fails reply_def)
next
  case (created f)
  then show ?thesis by (simp add: post_upload_created)
qed

lemma readGalleryData_cong: "db s = db t \<Longrightarrow> readGalleryData s = readGalleryData t"
  by (simp add: readGalleryData_def)

lemma find_None_ids:
  "(find (\<lambda>img. img_id img = i) xs = None) = (i \<notin> img_id ` set xs)"
  by (auto simp: find_None_iff)

lemma delete_image_not_found:
  "i \<notin> img_id ` set (readGalleryData s) \<Longrightarrow>
   delete_image i ok s = (reply 404 False ''Image not found'', s)"
proof -
  assume "i \<notin> img_id ` set (readGalleryData s)"
  then have "find (\<lambda>img. img_id img = i) (readGalleryData s) = None"
    by (simp add: find_None_ids)
  then show ?thesis
    by (simp add: delete_image_def Let_def)
qed

lemma delete_image_write_fails:
  "find (\<lambda>img. img_id img = i) (readGalleryData s) = Some r \<Longrightarrow>
   delete_image i False s =
     (reply 500 False ''Failed to update database'', s\<lparr>files := files s - {src r}\<rparr>)"
  by (simp add: delete_image_def Let_def writeGalleryData_def existsSync_def unlinkSync_def)

lemma delete_image_deleted:
  "find (\<lambda>img. img_id img = i) (readGalleryData s) = Some r \<Longrightarrow>
   delete_image i True s =
     (reply 200 True ''Image deleted successfully'',
      s\<lparr>files := files s - {src r},
        db := Json (filter (\<lambda>img. img_id img \<noteq> i) (readGalleryData s))\<rparr>)"
  by (simp add: delete_image_def Let_def writeGalleryData_def existsSync_def unlinkSync_def)

lemma delete_image_success:
  assumes "fst (delete_image i ok s) = reply 200 True ''Image deleted successfully''"
  shows "ok \<and> (\<exists>r. find (\<lambda>img. img_id img = i) (readGalleryData s) = Some r)"
proof (cases "find (\<lambda>img. img_id img = i) (readGalleryData s)")
  case None
  with assms show ?thesis
    by (simp add: delete_image_not_found find_None_ids reply_def)
next
  case (Some r)
  with assms show ?thesis
    by (cases ok) (simp_all add: delete_image_write_fails reply_def)
qed

lemma delete_image_404_iff:
  "(fst (delete_image i ok s) = reply 404 False ''Image not found'') =
   (i \<notin> img_id ` set (readGalleryData s))"
proof (cases "find (\<lambda>img. img_id img = i) (readGalleryData s)")
  case None
  then have "i \<notin> img_id ` set (readGalleryData s)"
    by (simp add: find_None_ids)
  then show ?thesis
    by (simp add: delete_image_not_found)
next
  case (Some r)
  then have "i \<in> img_id ` set (readGalleryData s)"
    using find_None_ids [of i "readGalleryData s"] by simp
  with Some show ?thesis
    by (cases ok) (simp_all add: delete_image_write_fails delete_image_deleted reply_def)
qed

lemma upload_single_stored:
  assumes "upload_single rq env s = (Inr (Some rf), s1)"
  shows "\<exists>f. image_file rq = Some f \<and> mimetype f \<in> set allowedTypes \<and> \<not> limit_raised env \<and>
             rf = stored_file env f \<and> s1 = s\<lparr>files := insert (file_path rf) (files s)\<rparr>"
proof (cases "image_file rq")
  case None
  with assms show ?thesis
    by (simp add: upload_single_def)
next
  case (Some f)
  with assms show ?thesis
    by (auto simp add: upload_single_def fileFilter_def limit_abort_def Let_def
        split: if_splits)
qed

lemma orphans_mono:
  "db t = db s \<Longrightarrow> files t \<subseteq> files s \<Longrightarrow> orphans t \<subseteq> orphans s"
  using readGalleryData_cong [of t s] by (auto simp add: orphans_def)

lemma post_upload_prepends:
  assumes "status (fst (post_upload rq env s)) = 201"
  shows "\<exists>img. data (fst (post_upload rq env s)) = Image img \<and>
               readGalleryData (snd (post_upload rq env s)) = img # readGalleryData s"
proof -
  from post_upload_created_iff [OF assms] obtain f where
    "post_upload rq env s =
     (\<lparr>status = 201, success = True, message = Some ''Image uploaded successfully'',
       data = Image (newImage rq (stored_file env f) env), error = None\<rparr>,
      s\<lparr>db := Json (newImage rq (stored_file env f) env # readGalleryData s),
        files := insert (file_path (stored_file env f)) (files s)\<rparr>)"
    by blast
  then show ?thesis by simp
qed

lemma uploads_index:
  "uploads us s = (rs, s') \<Longrightarrow> \<forall>r \<in> set rs. status r = 201 \<Longrightarrow>
   \<exists>imgs. map data rs = map Image imgs \<and>
          readGalleryData s' = rev imgs @ readGalleryData s"
proof (induction us arbitrary: s rs s')
  case Nil
  then show ?case by simp
next
  case (Cons u us)
  obtain rq env where u: "u = (rq, env)"
    by (cases u)
  obtain r s1 where p: "post_upload rq env s = (r, s1)"
    by (cases "post_upload rq env s")
  obtain rs1 s2 where q: "uploads us s1 = (rs1, s2)"
    by (cases "uploads us s1")
  from Cons.prems(1) u p q have rs: "rs = r # rs1" and s': "s' = s2"
    by simp_all
  from Cons.prems(2) rs have "status (fst (post_upload rq env s)) = 201"
    by (simp add: p)
  from post_upload_prepends [OF this] p obtain img where
    img: "data r = Image img" "readGalleryData s1 = img # readGalleryData s"
    by auto
  from Cons.prems(2) rs have "\<forall>r \<in> set rs1. status r = 201"
    by simp
  from Cons.IH [OF q this] obtain imgs where
    imgs: "map data rs1 = map Image imgs" "readGalleryData s2 = rev imgs @ readGalleryData s1"
    by blast
  have "map data rs = map Image (img # imgs)"
    by (simp add: rs img imgs)
  moreover have "readGalleryData s' = rev (img # imgs) @ readGalleryData s"
    by (simp add: s' img imgs)
  ultimately show ?case by blast
qed

subsection \<open>Loading never fails\<close>

text \<open>
  Claim C5. Loading the metadata is fail-soft: whatever the state of the document, when
  reading the file throws or parsing its content throws, \<open>readGalleryData\<close> returns the
  empty sequence (its result is a plain sequence, so no error reaches the caller); when
  both succeed it returns the parsed content.
\<close>

theorem readGalleryData_fail_soft:
  "(\<forall>e. readFileSync (db s) = Inl e \<longrightarrow> readGalleryData s = []) \<and>
   (\<forall>e text. readFileSync (db s) = Inr text \<and> JSON_parse text = Inl e
       \<longrightarrow> readGalleryData s = []) \<and>
   (\<forall>text xs. readFileSync (db s) = Inr text \<and> JSON_parse text = Inr xs
       \<longrightarrow> readGalleryData s = xs)"
  by (simp add: readGalleryData_def)

theorem readGalleryData_fail_soft_witness:
  "readGalleryData \<lparr>db = Unreadable, files = {}\<rparr> = [] \<and>
   readGalleryData \<lparr>db = Malformed, files = {}\<rparr> = [] \<and>
   readGalleryData
     \<lparr>db = Json [\<lparr>img_id = ''7'', src = ''/images/gallery/gallery-7-1.png'', alt = ''a'',
                  category = ''cats'', createdAt = ''2024-01-01T00:00:00.000Z''\<rparr>],
      files = {}\<rparr> =
     [\<lparr>img_id = ''7'', src = ''/images/gallery/gallery-7-1.png'', alt = ''a'',
       category = ''cats'', createdAt = ''2024-01-01T00:00:00.000Z''\<rparr>]"
proof -
  let ?r = "\<lparr>img_id = ''7'', src = ''/images/gallery/gallery-7-1.png'', alt = ''a'',
             category = ''cats'', createdAt = ''2024-01-01T00:00:00.000Z''\<rparr>"
  let ?u = "\<lparr>db = Unreadable, files = {} :: string set\<rparr>"
  let ?m = "\<lparr>db = Malformed, files = {} :: string set\<rparr>"
  let ?j = "\<lparr>db = Json [?r], files = {} :: string set\<rparr>"
  have "readFileSync (db ?u) = Inl (Error ''ENOENT: no such file or directory'')"
    by (simp add: readFileSync_def)
  with readGalleryData_fail_soft [of ?u] have u: "readGalleryData ?u = []"
    by blast
  have "readFileSync (db ?m) = Inr Malformed \<and>
        JSON_parse Malformed = Inl (Error ''SyntaxError: Unexpected end of JSON input'')"
    by (simp add: readFileSync_def JSON_parse_def)
  with readGalleryData_fail_soft [of ?m] have m: "readGalleryData ?m = []"
    by blast
  have "readFileSync (db ?j) = Inr (Json [?r]) \<and> JSON_parse (Json [?r]) = Inr [?r]"
    by (simp add: readFileSync_def JSON_parse_def)
  with readGalleryData_fail_soft [of ?j] have j: "readGalleryData ?j = [?r]"
    by blast
  from u m j show ?thesis by simp
qed

subsection \<open>Listing by category\<close>

text \<open>
  Claim C3. For every stored index and every category string \<open>c\<close>: listing the category
  \<^verbatim>\<open>all\<close> returns exactly the full index, in order, as the plain listing does; and for every
  \<open>c\<close> other than \<^verbatim>\<open>all\<close> the listing returns exactly the entries whose \<open>category\<close> equals
  \<open>c\<close> as a string (so case matters), in their original order.
\<close>

theorem category_filter_correct:
  "get_gallery_category ''all'' s = get_gallery s \<and>
   data (get_gallery_category ''all'' s) = Images (readGalleryData s) \<and>
   (c \<noteq> ''all'' \<longrightarrow>
      data (get_gallery_category c s) =
        Images (filter (\<lambda>img. category img = c) (readGalleryData s)))"
  by (simp add: get_gallery_category_def get_gallery_def)

theorem category_filter_correct_witness:
  "data (get_gallery_category ''dogs''
     \<lparr>db = Json
        [\<lparr>img_id = ''3'', src = ''/images/gallery/c.png'', alt = ''c'', category = ''dogs'',
          createdAt = ''t3''\<rparr>,
         \<lparr>img_id = ''2'', src = ''/images/gallery/b.png'', alt = ''b'', category = ''Dogs'',
          createdAt = ''t2''\<rparr>,
         \<lparr>img_id = ''1'', src = ''/images/gallery/a.png'', alt = ''a'', category = ''cats'',
          createdAt = ''t1''\<rparr>,
         \<lparr>img_id = ''0'', src = ''/images/gallery/z.png'', alt = ''z'', category = ''dogs'',
          createdAt = ''t0''\<rparr>],
      files = {}\<rparr>) =
   Images
     [\<lparr>img_id = ''3'', src = ''/images/gallery/c.png'', alt = ''c'', category = ''dogs'',
       createdAt = ''t3''\<rparr>,
      \<lparr>img_id = ''0'', src = ''/images/gallery/z.png'', alt = ''z'', category = ''dogs'',
       createdAt = ''t0''\<rparr>]"
proof -
  have "''dogs'' \<noteq> ''all''" by simp
  with category_filter_correct [of _ "''dogs''"] show ?thesis
    by (simp add: readGalleryData_def readFileSync_def JSON_parse_def)
qed

subsection \<open>Deleting\<close>

text \<open>
  Claim C10. Deleting is atomic when the id is not found: for every index holding no
  entry with the given id, the route answers 404 \<^verbatim>\<open>Image not found\<close>, writes no metadata
  document and removes no file; both stores are exactly as before the call.
\<close>

theorem delete_not_found_atomic:
  "i \<notin> img_id ` set (readGalleryData s) \<Longrightarrow>
   fst (delete_image i ok s) = reply 404 False ''Image not found'' \<and>
   snd (delete_image i ok s) = s"
  by (simp add: delete_image_not_found)

theorem delete_not_found_atomic_witness:
  "delete_image ''9'' True
     \<lparr>db = Json [\<lparr>img_id = ''7'', src = ''/images/gallery/a.png'', alt = ''a'',
                  category = ''cats'', createdAt = ''t''\<rparr>],
      files = {''/images/gallery/a.png''}\<rparr> =
   (reply 404 False ''Image not found'',
    \<lparr>db = Json [\<lparr>img_id = ''7'', src = ''/images/gallery/a.png'', alt = ''a'',
                  category = ''cats'', createdAt = ''t''\<rparr>],
      files = {''/images/gallery/a.png''}\<rparr>)"
proof -
  let ?s = "\<lparr>db = Json [\<lparr>img_id = ''7'', src = ''/images/gallery/a.png'', alt = ''a'',
                  category = ''cats'', createdAt = ''t''\<rparr>],
            files = {''/images/gallery/a.png''}\<rparr>"
  have "''9'' \<notin> img_id ` set (readGalleryData ?s)"
    by (simp add: readGalleryData_def readFileSync_def JSON_parse_def)
  from delete_not_found_atomic [OF this, of True] show ?thesis
    by (simp add: prod_eq_iff)
qed

text \<open>
  Claim C9. Deleting removes every entry whose id equals the given id, not only the
  first one found: after a successful deletion the saved index is the old one without
  the entries of that id, so it holds no entry with that id, also when the old index
  held several.
\<close>

theorem delete_removes_every_match:
  "fst (delete_image i ok s) = reply 200 True ''Image deleted successfully'' \<Longrightarrow>
   readGalleryData (snd (delete_image i ok s)) =
     filter (\<lambda>img. img_id img \<noteq> i) (readGalleryData s) \<and>
   i \<notin> img_id ` set (readGalleryData (snd (delete_image i ok s)))"
proof -
  assume "fst (delete_image i ok s) = reply 200 True ''Image deleted successfully''"
  then obtain r where "ok" and "find (\<lambda>img. img_id img = i) (readGalleryData s) = Some r"
    using delete_image_success by blast
  then show ?thesis
    by (auto simp add: delete_image_deleted)
qed

theorem delete_removes_every_match_witness:
  "readGalleryData (snd (delete_image ''7'' True
     \<lparr>db = Json
        [\<lparr>img_id = ''7'', src = ''/images/gallery/c.png'', alt = ''c'', category = ''dogs'',
          createdAt = ''t3''\<rparr>,
         \<lparr>img_id = ''8'', src = ''/images/gallery/b.png'', alt = ''b'', category = ''dogs'',
          createdAt = ''t2''\<rparr>,
         \<lparr>img_id = ''7'', src = ''/images/gallery/a.png'', alt = ''a'', category = ''cats'',
          createdAt = ''t1''\<rparr>],
      files = {''/images/gallery/a.png'', ''/images/gallery/b.png'',
               ''/images/gallery/c.png''}\<rparr>)) =
   [\<lparr>img_id = ''8'', src = ''/images/gallery/b.png'', alt = ''b'', category = ''dogs'',
     createdAt = ''t2''\<rparr>]"
proof -
  let ?s = "\<lparr>db = Json
        [\<lparr>img_id = ''7'', src = ''/images/gallery/c.png'', alt = ''c'', category = ''dogs'',
          createdAt = ''t3''\<rparr>,
         \<lparr>img_id = ''8'', src = ''/images/gallery/b.png'', alt = ''b'', category = ''dogs'',
          createdAt = ''t2''\<rparr>,
         \<lparr>img_id = ''7'', src = ''/images/gallery/a.png'', alt = ''a'', category = ''cats'',
          createdAt = ''t1''\<rparr>],
      files = {''/images/gallery/a.png'', ''/images/gallery/b.png'',
               ''/images/gallery/c.png''}\<rparr>"
  have rd: "readGalleryData ?s =
        [\<lparr>img_id = ''7'', src = ''/images/gallery/c.png'', alt = ''c'', category = ''dogs'',
          createdAt = ''t3''\<rparr>,
         \<lparr>img_id = ''8'', src = ''/images/gallery/b.png'', alt = ''b'', category = ''dogs'',
          createdAt = ''t2''\<rparr>,
         \<lparr>img_id = ''7'', src = ''/images/gallery/a.png'', alt = ''a'', category = ''cats'',
          createdAt = ''t1''\<rparr>]"
    by (simp add: readGalleryData_def readFileSync_def JSON_parse_def)
  have "fst (delete_image ''7'' True ?s) = reply 200 True ''Image deleted successfully''"
    by (simp add: delete_image_def Let_def rd writeGalleryData_def existsSync_def
        unlinkSync_def)
  from delete_removes_every_match [OF this] show ?thesis
    by (simp add: rd)
qed

text \<open>
  Claim C6. Deleting answers 404 \<^verbatim>\<open>Image not found\<close> exactly when no entry of the current
  index has the id. When an entry has it and the write succeeds, the deletion succeeds,
  whether the file of the entry is on disk or not. After a successful deletion the file
  of the entry found is gone, the saved index is the old one without the entries of
  that id, so the listing does not contain them, and deleting the same id again answers
  404.
\<close>

theorem delete_not_found_iff:
  "(fst (delete_image i ok s) = reply 404 False ''Image not found'') =
     (i \<notin> img_id ` set (readGalleryData s)) \<and>
   (\<forall>r. find (\<lambda>img. img_id img = i) (readGalleryData s) = Some r \<and> ok \<longrightarrow>
      fst (delete_image i ok s) = reply 200 True ''Image deleted successfully'') \<and>
   (fst (delete_image i ok s) = reply 200 True ''Image deleted successfully'' \<longrightarrow>
      (\<exists>r. find (\<lambda>img. img_id img = i) (readGalleryData s) = Some r \<and>
           files (snd (delete_image i ok s)) = files s - {src r}) \<and>
      data (get_gallery (snd (delete_image i ok s))) =
        Images (filter (\<lambda>img. img_id img \<noteq> i) (readGalleryData s)) \<and>
      (\<forall>x \<in> set (readGalleryData (snd (delete_image i ok s))). img_id x \<noteq> i) \<and>
      (\<forall>ok'. fst (delete_image i ok' (snd (delete_image i ok s))) =
         reply 404 False ''Image not found''))"
proof (intro conjI impI allI)
  show "(fst (delete_image i ok s) = reply 404 False ''Image not found'') =
     (i \<notin> img_id ` set (readGalleryData s))"
    by (rule delete_image_404_iff)
next
  fix r
  assume "find (\<lambda>img. img_id img = i) (readGalleryData s) = Some r \<and> ok"
  then show "fst (delete_image i ok s) = reply 200 True ''Image deleted successfully''"
    by (simp add: delete_image_deleted)
next
  assume a: "fst (delete_image i ok s) = reply 200 True ''Image deleted successfully''"
  then obtain r where ok: "ok" and r: "find (\<lambda>img. img_id img = i) (readGalleryData s) = Some r"
    using delete_image_success by blast
  let ?t = "snd (delete_image i ok s)"
  have t: "?t = s\<lparr>files := files s - {src r},
                  db := Json (filter (\<lambda>img. img_id img \<noteq> i) (readGalleryData s))\<rparr>"
    using ok r by (simp add: delete_image_deleted)
  show "\<exists>r. find (\<lambda>img. img_id img = i) (readGalleryData s) = Some r \<and>
           files ?t = files s - {src r}"
    using r t by simp
  show "data (get_gallery ?t) = Images (filter (\<lambda>img. img_id img \<noteq> i) (readGalleryData s))"
    using t by (simp add: get_gallery_def)
  have gone: "i \<notin> img_id ` set (readGalleryData ?t)"
    using t by auto
  then show "\<forall>x \<in> set (readGalleryData ?t). img_id x \<noteq> i"
    by auto
  fix ok'
  show "fst (delete_image i ok' ?t) = reply 404 False ''Image not found''"
    using gone delete_image_404_iff [of i ok' ?t] by blast
qed

theorem delete_not_found_iff_witness:
  "fst (delete_image ''7'' True
     \<lparr>db = Json
        [\<lparr>img_id = ''8'', src = ''/images/gallery/b.png'', alt = ''b'', category = ''dogs'',
          createdAt = ''t2''\<rparr>,
         \<lparr>img_id = ''7'', src = ''/images/gallery/a.png'', alt = ''a'', category = ''cats'',
          createdAt = ''t1''\<rparr>],
      files = {''/images/gallery/b.png''}\<rparr>) =
     reply 200 True ''Image deleted successfully'' \<and>
   data (get_gallery (snd (delete_image ''7'' True
     \<lparr>db = Json
        [\<lparr>img_id = ''8'', src = ''/images/gallery/b.png'', alt = ''b'', category = ''dogs'',
          createdAt = ''t2''\<rparr>,
         \<lparr>img_id = ''7'', src = ''/images/gallery/a.png'', alt = ''a'', category = ''cats'',
          createdAt = ''t1''\<rparr>],
      files = {''/images/gallery/b.png''}\<rparr>))) =
     Images [\<lparr>img_id = ''8'', src = ''/images/gallery/b.png'', alt = ''b'',
              category = ''dogs'', createdAt = ''t2''\<rparr>] \<and>
   fst (delete_image ''7'' True (snd (delete_image ''7'' True
     \<lparr>db = Json
        [\<lparr>img_id = ''8'', src = ''/images/gallery/b.png'', alt = ''b'', category = ''dogs'',
          createdAt = ''t2''\<rparr>,
         \<lparr>img_id = ''7'', src = ''/images/gallery/a.png'', alt = ''a'', category = ''cats'',
          createdAt = ''t1''\<rparr>],
      files = {''/images/gallery/b.png''}\<rparr>))) =
     reply 404 False ''Image not found''"
proof -
  let ?a = "\<lparr>img_id = ''7'', src = ''/images/gallery/a.png'', alt = ''a'', category = ''cats'',
             createdAt = ''t1''\<rparr>"
  let ?b = "\<lparr>img_id = ''8'', src = ''/images/gallery/b.png'', alt = ''b'', category = ''dogs'',
             createdAt = ''t2''\<rparr>"
  let ?s = "\<lparr>db = Json [?b, ?a], files = {''/images/gallery/b.png''}\<rparr>"
  have rd: "readGalleryData ?s = [?b, ?a]"
    by (simp add: readGalleryData_def readFileSync_def JSON_parse_def)
  have found: "find (\<lambda>img. img_id img = ''7'') (readGalleryData ?s) = Some ?a \<and> True"
    by (simp add: rd)
  note d = delete_not_found_iff [of "''7''" True ?s]
  from d found have ok: "fst (delete_image ''7'' True ?s) =
      reply 200 True ''Image deleted successfully''"
    by blast
  with d have
    "data (get_gallery (snd (delete_image ''7'' True ?s))) =
       Images (filter (\<lambda>img. img_id img \<noteq> ''7'') (readGalleryData ?s))"
    and "fst (delete_image ''7'' True (snd (delete_image ''7'' True ?s))) =
       reply 404 False ''Image not found''"
    by blast+
  with ok show ?thesis
    by (simp add: rd)
qed

subsection \<open>Rejected uploads\<close>

text \<open>
  Claim C7. For every upload whose file has a mimetype outside \<^verbatim>\<open>image/jpeg\<close>,
  \<^verbatim>\<open>image/jpg\<close>, \<^verbatim>\<open>image/png\<close> and \<^verbatim>\<open>image/webp\<close>, the route answers with the error of the
  file filter (\<^verbatim>\<open>Invalid file type\<close>) and both stores are as before, so nothing was
  written; a file with one of the four mimetypes passes the filter.
\<close>

theorem invalid_file_type_rejected:
  "image_file rq = Some f \<Longrightarrow>
   (mimetype f \<notin> {''image/jpeg'', ''image/jpg'', ''image/png'', ''image/webp''} \<longrightarrow>
      post_upload rq env s =
        (reply 500 False ''Invalid file type. Only JPEG, PNG and WEBP are allowed.'', s)) \<and>
   (mimetype f \<in> {''image/jpeg'', ''image/jpg'', ''image/png'', ''image/webp''} \<longrightarrow>
      fileFilter f = Inr True)"
proof (intro conjI impI)
  assume f: "image_file rq = Some f"
    and "mimetype f \<notin> {''image/jpeg'', ''image/jpg'', ''image/png'', ''image/webp''}"
  then have "mimetype f \<notin> set allowedTypes"
    by (simp add: allowedTypes_def)
  with f show "post_upload rq env s =
        (reply 500 False ''Invalid file type. Only JPEG, PNG and WEBP are allowed.'', s)"
    by (rule post_upload_bad_type)
next
  assume "mimetype f \<in> {''image/jpeg'', ''image/jpg'', ''image/png'', ''image/webp''}"
  then have "mimetype f \<in> set allowedTypes"
    by (simp add: allowedTypes_def)
  then show "fileFilter f = Inr True"
    by (simp add: fileFilter_def)
qed

theorem invalid_file_type_rejected_witness:
  "post_upload
     \<lparr>image_file = Some \<lparr>ext = ''.txt'', mimetype = ''text/plain'', bytes = 12\<rparr>,
      body_alt = Some ''a'', body_category = Some ''cats''\<rparr>
     \<lparr>now_filename = 5, random = 123, now_id = 6, iso_now = ''t'', write_ok = True, limit_raised = False\<rparr>
     \<lparr>db = Json [], files = {}\<rparr> =
     (reply 500 False ''Invalid file type. Only JPEG, PNG and WEBP are allowed.'',
      \<lparr>db = Json [], files = {}\<rparr>) \<and>
   fileFilter \<lparr>ext = ''.webp'', mimetype = ''image/webp'', bytes = 12\<rparr> = Inr True"
proof -
  let ?f = "\<lparr>ext = ''.txt'', mimetype = ''text/plain'', bytes = 12\<rparr>"
  let ?g = "\<lparr>ext = ''.webp'', mimetype = ''image/webp'', bytes = 12\<rparr>"
  let ?rq = "\<lambda>f. \<lparr>image_file = Some f, body_alt = Some ''a'', body_category = Some ''cats''\<rparr>"
  have f: "image_file (?rq ?f) = Some ?f" and g: "image_file (?rq ?g) = Some ?g"
    by simp_all
  have "mimetype ?f \<notin> {''image/jpeg'', ''image/jpg'', ''image/png'', ''image/webp''}"
    by simp
  with invalid_file_type_rejected [OF f] have 1: "post_upload (?rq ?f)
     \<lparr>now_filename = 5, random = 123, now_id = 6, iso_now = ''t'', write_ok = True, limit_raised = False\<rparr>
     \<lparr>db = Json [], files = {}\<rparr> =
     (reply 500 False ''Invalid file type. Only JPEG, PNG and WEBP are allowed.'',
      \<lparr>db = Json [], files = {}\<rparr>)"
    by blast
  have "mimetype ?g \<in> {''image/jpeg'', ''image/jpg'', ''image/png'', ''image/webp''}"
    by simp
  with invalid_file_type_rejected [OF g] have 2: "fileFilter ?g = Inr True"
    by blast
  from 1 2 show ?thesis by simp
qed




subsection \<open>Failed uploads leave no file behind\<close>

text \<open>
  Claim C2. An upload never leaves an orphan: whenever the middleware has written the
  file of an upload and the upload then fails, because \<^verbatim>\<open>alt\<close> or \<^verbatim>\<open>category\<close> is empty
  (400 \<^verbatim>\<open>Alt text and category are required\<close>) or because saving the metadata fails (500
  \<^verbatim>\<open>Failed to save image data\<close>), the file just written is removed before the answer;
  and after any upload that does not answer 201 every stored file without an entry in
  the index was such a file before the upload already.
\<close>

theorem upload_failure_leaves_no_orphan:
  "(upload_single rq env s = (Inr (Some rf), s1) \<longrightarrow>
      file_path rf \<in> files s1 \<and>
      (falsy (body_alt rq) \<or> falsy (body_category rq) \<longrightarrow>
         post_upload rq env s =
           (reply 400 False ''Alt text and category are required'',
            s1\<lparr>files := files s1 - {file_path rf}\<rparr>)) \<and>
      (\<not> falsy (body_alt rq) \<and> \<not> falsy (body_category rq) \<and> \<not> write_ok env \<longrightarrow>
         post_upload rq env s =
           (reply 500 False ''Failed to save image data'',
            s1\<lparr>files := files s1 - {file_path rf}\<rparr>)) \<and>
      (status (fst (post_upload rq env s)) \<noteq> 201 \<longrightarrow>
         file_path rf \<notin> files (snd (post_upload rq env s)))) \<and>
   (status (fst (post_upload rq env s)) \<noteq> 201 \<longrightarrow>
      orphans (snd (post_upload rq env s)) \<subseteq> orphans s)"
proof (intro conjI impI)
  assume "status (fst (post_upload rq env s)) \<noteq> 201"
  then have "db (snd (post_upload rq env s)) = db s \<and>
             files (snd (post_upload rq env s)) \<subseteq> files s"
    by (rule post_upload_failed_store)
  then show "orphans (snd (post_upload rq env s)) \<subseteq> orphans s"
    by (simp add: orphans_mono)
next
  assume w: "upload_single rq env s = (Inr (Some rf), s1)"
  from upload_single_stored [OF w] obtain f where
    f: "image_file rq = Some f" "mimetype f \<in> set allowedTypes" "\<not> limit_raised env"
    and rf: "rf = stored_file env f"
    and s1: "s1 = s\<lparr>files := insert (file_path rf) (files s)\<rparr>"
    by blast
  show "file_path rf \<in> files s1"
    by (simp add: s1)
  have gone: "s1\<lparr>files := files s1 - {file_path rf}\<rparr> = s\<lparr>files := files s - {file_path rf}\<rparr>"
    by (simp add: s1)
  {
    assume "falsy (body_alt rq) \<or> falsy (body_category rq)"
    with f show "post_upload rq env s =
           (reply 400 False ''Alt text and category are required'',
            s1\<lparr>files := files s1 - {file_path rf}\<rparr>)"
      unfolding gone by (simp add: post_upload_missing_fields rf)
  }
  {
    assume "\<not> falsy (body_alt rq) \<and> \<not> falsy (body_category rq) \<and> \<not> write_ok env"
    with f show "post_upload rq env s =
           (reply 500 False ''Failed to save image data'',
            s1\<lparr>files := files s1 - {file_path rf}\<rparr>)"
      unfolding gone by (simp add: post_upload_write_fails rf)
  }
  {
    assume n: "status (fst (post_upload rq env s)) \<noteq> 201"
    show "file_path rf \<notin> files (snd (post_upload rq env s))"
    proof (cases "falsy (body_alt rq) \<or> falsy (body_category rq)")
      case True
      with f show ?thesis
        by (simp add: post_upload_missing_fields rf)
    next
      case False
      with f n show ?thesis
        by (cases "write_ok env")
          (simp_all add: post_upload_created post_upload_write_fails rf)
    qed
  }
qed

theorem upload_failure_leaves_no_orphan_witness:
  "post_upload
     \<lparr>image_file = Some \<lparr>ext = ''.png'', mimetype = ''image/png'', bytes = 12\<rparr>,
      body_alt = Some [], body_category = Some ''cats''\<rparr>
     \<lparr>now_filename = 5, random = 123, now_id = 6, iso_now = ''t'', write_ok = True, limit_raised = False\<rparr>
     \<lparr>db = Json [], files = {}\<rparr> =
     (reply 400 False ''Alt text and category are required'', \<lparr>db = Json [], files = {}\<rparr>) \<and>
   post_upload
     \<lparr>image_file = Some \<lparr>ext = ''.png'', mimetype = ''image/png'', bytes = 12\<rparr>,
      body_alt = Some ''a'', body_category = Some ''cats''\<rparr>
     \<lparr>now_filename = 5, random = 123, now_id = 6, iso_now = ''t'', write_ok = False, limit_raised = False\<rparr>
     \<lparr>db = Json [], files = {}\<rparr> =
     (reply 500 False ''Failed to save image data'', \<lparr>db = Json [], files = {}\<rparr>) \<and>
   orphans (snd (post_upload
     \<lparr>image_file = Some \<lparr>ext = ''.png'', mimetype = ''image/png'', bytes = 12\<rparr>,
      body_alt = Some ''a'', body_category = Some ''cats''\<rparr>
     \<lparr>now_filename = 5, random = 123, now_id = 6, iso_now = ''t'', write_ok = False, limit_raised = False\<rparr>
     \<lparr>db = Json [], files = {}\<rparr>)) = {}"
proof -
  let ?f = "\<lparr>ext = ''.png'', mimetype = ''image/png'', bytes = 12\<rparr>"
  let ?rq1 = "\<lparr>image_file = Some ?f, body_alt = Some [], body_category = Some ''cats''\<rparr>"
  let ?rq2 = "\<lparr>image_file = Some ?f, body_alt = Some ''a'', body_category = Some ''cats''\<rparr>"
  let ?e1 = "\<lparr>now_filename = 5, random = 123, now_id = 6, iso_now = ''t'', write_ok = True, limit_raised = False\<rparr>"
  let ?e2 = "\<lparr>now_filename = 5, random = 123, now_id = 6, iso_now = ''t'', write_ok = False, limit_raised = False\<rparr>"
  let ?s = "\<lparr>db = Json [], files = {} :: string set\<rparr>"
  let ?rf = "\<lparr>file_name = ''gallery-5-123.png'',
              file_path = ''/images/gallery/gallery-5-123.png''\<rparr>"
  let ?s1 = "\<lparr>db = Json [], files = {''/images/gallery/gallery-5-123.png''}\<rparr>"
  have w1: "upload_single ?rq1 ?e1 ?s = (Inr (Some ?rf), ?s1)"
    and w2: "upload_single ?rq2 ?e2 ?s = (Inr (Some ?rf), ?s1)"
    by (simp_all add: upload_single_def fileFilter_def allowedTypes_def fileSize_def
        stored_file_def filename_def upload_path_def toString.simps digit_def)
  have "falsy (body_alt ?rq1) \<or> falsy (body_category ?rq1)"
    by (simp add: falsy_def)
  with upload_failure_leaves_no_orphan [of ?rq1 ?e1 ?s ?rf ?s1] w1
  have "post_upload ?rq1 ?e1 ?s =
      (reply 400 False ''Alt text and category are required'',
       ?s1\<lparr>files := files ?s1 - {file_path ?rf}\<rparr>)"
    by blast
  then have 1: "post_upload ?rq1 ?e1 ?s =
      (reply 400 False ''Alt text and category are required'', ?s)"
    by simp
  have "\<not> falsy (body_alt ?rq2) \<and> \<not> falsy (body_category ?rq2) \<and> \<not> write_ok ?e2"
    by (simp add: falsy_def)
  with upload_failure_leaves_no_orphan [of ?rq2 ?e2 ?s ?rf ?s1] w2
  have "post_upload ?rq2 ?e2 ?s =
      (reply 500 False ''Failed to save image data'',
       ?s1\<lparr>files := files ?s1 - {file_path ?rf}\<rparr>)"
    by blast
  then have 2: "post_upload ?rq2 ?e2 ?s = (reply 500 False ''Failed to save image data'', ?s)"
    by simp
  then have "status (fst (post_upload ?rq2 ?e2 ?s)) \<noteq> 201"
    by (simp add: reply_def)
  with upload_failure_leaves_no_orphan [of ?rq2 ?e2 ?s ?rf ?s1]
  have "orphans (snd (post_upload ?rq2 ?e2 ?s)) \<subseteq> orphans ?s"
    by blast
  moreover have "orphans ?s = {}"
    by (simp add: orphans_def)
  ultimately have 3: "orphans (snd (post_upload ?rq2 ?e2 ?s)) = {}"
    by simp
  from 1 2 3 show ?thesis by blast
qed

subsection \<open>Newest first\<close>

text \<open>
  Claim C4. The index is kept newest first: every successful upload (answer 201) saves
  the index with its new entry put in front of the entries read; so after any sequence of
  uploads that all succeed, the listing returns their entries in reverse order of
  upload, the latest first, followed by the entries that were there before.
\<close>

theorem uploads_newest_first:
  "(status (fst (post_upload rq env s)) = 201 \<longrightarrow>
      (\<exists>img. data (fst (post_upload rq env s)) = Image img \<and>
         readGalleryData (snd (post_upload rq env s)) = img # readGalleryData s)) \<and>
   (uploads us s = (rs, s') \<and> (\<forall>r \<in> set rs. status r = 201) \<longrightarrow>
      (\<exists>imgs. map data rs = map Image imgs \<and>
         data (get_gallery s') = Images (rev imgs @ readGalleryData s)))"
proof (intro conjI impI)
  assume "status (fst (post_upload rq env s)) = 201"
  then show "\<exists>img. data (fst (post_upload rq env s)) = Image img \<and>
         readGalleryData (snd (post_upload rq env s)) = img # readGalleryData s"
    by (rule post_upload_prepends)
next
  assume "uploads us s = (rs, s') \<and> (\<forall>r \<in> set rs. status r = 201)"
  then obtain imgs where "map data rs = map Image imgs"
    and "readGalleryData s' = rev imgs @ readGalleryData s"
    using uploads_index [of us s rs s'] by blast
  then show "\<exists>imgs. map data rs = map Image imgs \<and>
         data (get_gallery s') = Images (rev imgs @ readGalleryData s)"
    by (auto simp add: get_gallery_def)
qed

theorem uploads_newest_first_witness:
  "data (get_gallery (snd (uploads
     [(\<lparr>image_file = Some \<lparr>ext = ''.png'', mimetype = ''image/png'', bytes = 12\<rparr>,
        body_alt = Some ''a'', body_category = Some ''cats''\<rparr>,
       \<lparr>now_filename = 5, random = 1, now_id = 5, iso_now = ''t5'', write_ok = True, limit_raised = False\<rparr>),
      (\<lparr>image_file = Some \<lparr>ext = ''.jpg'', mimetype = ''image/jpeg'', bytes = 34\<rparr>,
        body_alt = Some ''b'', body_category = Some ''dogs''\<rparr>,
       \<lparr>now_filename = 7, random = 2, now_id = 7, iso_now = ''t7'', write_ok = True, limit_raised = False\<rparr>)]
     \<lparr>db = Json [], files = {}\<rparr>))) =
   Images
     [\<lparr>img_id = ''7'', src = ''/images/gallery/gallery-7-2.jpg'', alt = ''b'',
       category = ''dogs'', createdAt = ''t7''\<rparr>,
      \<lparr>img_id = ''5'', src = ''/images/gallery/gallery-5-1.png'', alt = ''a'',
       category = ''cats'', createdAt = ''t5''\<rparr>] \<and>
   readGalleryData (snd (post_upload
     \<lparr>image_file = Some \<lparr>ext = ''.jpg'', mimetype = ''image/jpeg'', bytes = 34\<rparr>,
      body_alt = Some ''b'', body_category = Some ''dogs''\<rparr>
     \<lparr>now_filename = 7, random = 2, now_id = 7, iso_now = ''t7'', write_ok = True, limit_raised = False\<rparr>
     \<lparr>db = Json
        [\<lparr>img_id = ''5'', src = ''/images/gallery/gallery-5-1.png'', alt = ''a'',
          category = ''cats'', createdAt = ''t5''\<rparr>],
      files = {''/images/gallery/gallery-5-1.png''}\<rparr>)) =
     [\<lparr>img_id = ''7'', src = ''/images/gallery/gallery-7-2.jpg'', alt = ''b'',
       category = ''dogs'', createdAt = ''t7''\<rparr>,
      \<lparr>img_id = ''5'', src = ''/images/gallery/gallery-5-1.png'', alt = ''a'',
       category = ''cats'', createdAt = ''t5''\<rparr>]"
proof -
  let ?rqA = "\<lparr>image_file = Some \<lparr>ext = ''.png'', mimetype = ''image/png'', bytes = 12\<rparr>,
        body_alt = Some ''a'', body_category = Some ''cats''\<rparr>"
  let ?envA = "\<lparr>now_filename = 5, random = 1, now_id = 5, iso_now = ''t5'', write_ok = True, limit_raised = False\<rparr>"
  let ?rqB = "\<lparr>image_file = Some \<lparr>ext = ''.jpg'', mimetype = ''image/jpeg'', bytes = 34\<rparr>,
        body_alt = Some ''b'', body_category = Some ''dogs''\<rparr>"
  let ?envB = "\<lparr>now_filename = 7, random = 2, now_id = 7, iso_now = ''t7'', write_ok = True, limit_raised = False\<rparr>"
  let ?a = "\<lparr>img_id = ''5'', src = ''/images/gallery/gallery-5-1.png'', alt = ''a'',
       category = ''cats'', createdAt = ''t5''\<rparr>"
  let ?b = "\<lparr>img_id = ''7'', src = ''/images/gallery/gallery-7-2.jpg'', alt = ''b'',
       category = ''dogs'', createdAt = ''t7''\<rparr>"
  let ?s = "\<lparr>db = Json [], files = {} :: string set\<rparr>"
  let ?rA = "\<lparr>status = 201, success = True, message = Some ''Image uploaded successfully'',
       data = Image ?a, error = None\<rparr>"
  let ?rB = "\<lparr>status = 201, success = True, message = Some ''Image uploaded successfully'',
       data = Image ?b, error = None\<rparr>"
  let ?t = "\<lparr>db = Json [?b, ?a],
       files = {''/images/gallery/gallery-7-2.jpg'', ''/images/gallery/gallery-5-1.png''}\<rparr>"
  have run: "uploads [(?rqA, ?envA), (?rqB, ?envB)] ?s = ([?rA, ?rB], ?t)"
    by (simp add: post_upload_def upload_single_def fileFilter_def allowedTypes_def
        fileSize_def stored_file_def filename_def upload_path_def toString.simps digit_def
        upload_handler_def falsy_def writeGalleryData_def newImage_def readGalleryData_def
        readFileSync_def JSON_parse_def)
  have "\<forall>r \<in> set [?rA, ?rB]. status r = 201"
    by simp
  with uploads_newest_first
    [where us = "[(?rqA, ?envA), (?rqB, ?envB)]" and s = ?s and rs = "[?rA, ?rB]" and s' = ?t]
    run
  obtain imgs where "map data [?rA, ?rB] = map Image imgs"
    and l: "data (get_gallery ?t) = Images (rev imgs @ readGalleryData ?s)"
    by blast
  then have "imgs = [?a, ?b]"
    by auto
  with l have 1: "data (get_gallery ?t) = Images [?b, ?a]"
    by (simp add: readGalleryData_def readFileSync_def JSON_parse_def)
  let ?m = "\<lparr>db = Json [?a], files = {''/images/gallery/gallery-5-1.png''}\<rparr>"
  have step: "post_upload ?rqB ?envB ?m = (?rB, ?t)"
    by (simp add: post_upload_def upload_single_def fileFilter_def allowedTypes_def
        fileSize_def stored_file_def filename_def upload_path_def toString.simps digit_def
        upload_handler_def falsy_def writeGalleryData_def newImage_def readGalleryData_def
        readFileSync_def JSON_parse_def)
  then have "status (fst (post_upload ?rqB ?envB ?m)) = 201"
    by simp
  with uploads_newest_first [where rq = ?rqB and env = ?envB and s = ?m]
  obtain img where "data (fst (post_upload ?rqB ?envB ?m)) = Image img"
    and "readGalleryData (snd (post_upload ?rqB ?envB ?m)) = img # readGalleryData ?m"
    by blast
  with step have 2: "readGalleryData (snd (post_upload ?rqB ?envB ?m)) = [?b, ?a]"
    by (simp add: readGalleryData_def readFileSync_def JSON_parse_def)
  from 1 2 run show ?thesis
    by simp
qed

subsection \<open>Ids\<close>

text \<open>
  Claim C1 says that in every index reached from the empty one by uploads and deletions
  the ids are pairwise distinct, each upload giving its entry an id that no entry of the
  index has. The code does not keep this: the handler takes \<^verbatim>\<open>Date.now().toString()\<close>
  as the id and compares it with nothing, where the file name next to it gets a random
  suffix. Two uploads served within the same millisecond, starting from the empty index,
  leave two entries with the id 5; deleting that id then removes both entries but only
  the file of the one found first, and the file of the other stays without an entry.
\<close>

theorem ids_same_millisecond_duplicate:
  "map img_id (readGalleryData (run
     [Upload
        \<lparr>image_file = Some \<lparr>ext = ''.png'', mimetype = ''image/png'', bytes = 12\<rparr>,
         body_alt = Some ''a'', body_category = Some ''cats''\<rparr>
        \<lparr>now_filename = 5, random = 1, now_id = 5, iso_now = ''t5'', write_ok = True,
         limit_raised = False\<rparr>,
      Upload
        \<lparr>image_file = Some \<lparr>ext = ''.jpg'', mimetype = ''image/jpeg'', bytes = 34\<rparr>,
         body_alt = Some ''b'', body_category = Some ''dogs''\<rparr>
        \<lparr>now_filename = 5, random = 2, now_id = 5, iso_now = ''t5'', write_ok = True,
         limit_raised = False\<rparr>]
     \<lparr>db = Json [], files = {}\<rparr>)) = [''5'', ''5''] \<and>
   \<not> distinct (map img_id (readGalleryData (run
     [Upload
        \<lparr>image_file = Some \<lparr>ext = ''.png'', mimetype = ''image/png'', bytes = 12\<rparr>,
         body_alt = Some ''a'', body_category = Some ''cats''\<rparr>
        \<lparr>now_filename = 5, random = 1, now_id = 5, iso_now = ''t5'', write_ok = True,
         limit_raised = False\<rparr>,
      Upload
        \<lparr>image_file = Some \<lparr>ext = ''.jpg'', mimetype = ''image/jpeg'', bytes = 34\<rparr>,
         body_alt = Some ''b'', body_category = Some ''dogs''\<rparr>
        \<lparr>now_filename = 5, random = 2, now_id = 5, iso_now = ''t5'', write_ok = True,
         limit_raised = False\<rparr>]
     \<lparr>db = Json [], files = {}\<rparr>))) \<and>
   run
     [Upload
        \<lparr>image_file = Some \<lparr>ext = ''.png'', mimetype = ''image/png'', bytes = 12\<rparr>,
         body_alt = Some ''a'', body_category = Some ''cats''\<rparr>
        \<lparr>now_filename = 5, random = 1, now_id = 5, iso_now = ''t5'', write_ok = True,
         limit_raised = False\<rparr>,
      Upload
        \<lparr>image_file = Some \<lparr>ext = ''.jpg'', mimetype = ''image/jpeg'', bytes = 34\<rparr>,
         body_alt = Some ''b'', body_category = Some ''dogs''\<rparr>
        \<lparr>now_filename = 5, random = 2, now_id = 5, iso_now = ''t5'', write_ok = True,
         limit_raised = False\<rparr>,
      Delete ''5'' True]
     \<lparr>db = Json [], files = {}\<rparr> =
     \<lparr>db = Json [], files = {''/images/gallery/gallery-5-1.png''}\<rparr> \<and>
   orphans \<lparr>db = Json [], files = {''/images/gallery/gallery-5-1.png''}\<rparr> =
     {''/images/gallery/gallery-5-1.png''}"
proof -
  let ?rqA = "\<lparr>image_file = Some \<lparr>ext = ''.png'', mimetype = ''image/png'', bytes = 12\<rparr>,
         body_alt = Some ''a'', body_category = Some ''cats''\<rparr>"
  let ?envA = "\<lparr>now_filename = 5, random = 1, now_id = 5, iso_now = ''t5'', write_ok = True,
         limit_raised = False\<rparr>"
  let ?rqB = "\<lparr>image_file = Some \<lparr>ext = ''.jpg'', mimetype = ''image/jpeg'', bytes = 34\<rparr>,
         body_alt = Some ''b'', body_category = Some ''dogs''\<rparr>"
  let ?envB = "\<lparr>now_filename = 5, random = 2, now_id = 5, iso_now = ''t5'', write_ok = True,
         limit_raised = False\<rparr>"
  let ?a = "\<lparr>img_id = ''5'', src = ''/images/gallery/gallery-5-1.png'', alt = ''a'',
       category = ''cats'', createdAt = ''t5''\<rparr>"
  let ?b = "\<lparr>img_id = ''5'', src = ''/images/gallery/gallery-5-2.jpg'', alt = ''b'',
       category = ''dogs'', createdAt = ''t5''\<rparr>"
  let ?s0 = "\<lparr>db = Json [], files = {} :: string set\<rparr>"
  let ?s1 = "\<lparr>db = Json [?a], files = {''/images/gallery/gallery-5-1.png''}\<rparr>"
  let ?s2 = "\<lparr>db = Json [?b, ?a],
       files = {''/images/gallery/gallery-5-2.jpg'', ''/images/gallery/gallery-5-1.png''}\<rparr>"
  let ?s3 = "\<lparr>db = Json [], files = {''/images/gallery/gallery-5-1.png''}\<rparr>"
  have 1: "snd (post_upload ?rqA ?envA ?s0) = ?s1"
    by (simp add: post_upload_def upload_single_def fileFilter_def allowedTypes_def
        limit_abort_def stored_file_def filename_def upload_path_def toString.simps digit_def
        upload_handler_def falsy_def writeGalleryData_def newImage_def readGalleryData_def
        readFileSync_def JSON_parse_def)
  have 2: "snd (post_upload ?rqB ?envB ?s1) = ?s2"
    by (simp add: post_upload_def upload_single_def fileFilter_def allowedTypes_def
        limit_abort_def stored_file_def filename_def upload_path_def toString.simps digit_def
        upload_handler_def falsy_def writeGalleryData_def newImage_def readGalleryData_def
        readFileSync_def JSON_parse_def)
  have 3: "snd (delete_image ''5'' True ?s2) = ?s3"
    by (simp add: delete_image_def Let_def readGalleryData_def readFileSync_def JSON_parse_def
        existsSync_def unlinkSync_def writeGalleryData_def insert_Diff_if)
  have ids: "map img_id (readGalleryData ?s2) = [''5'', ''5'']"
    by (simp add: readGalleryData_def readFileSync_def JSON_parse_def)
  have orph: "orphans ?s3 = {''/images/gallery/gallery-5-1.png''}"
    by (auto simp add: orphans_def readGalleryData_def readFileSync_def JSON_parse_def)
  from 1 2 3 ids orph show ?thesis
    by simp
qed

end
